theory Spec2Isabelle
  imports Main "HOL-Library.Word"
begin

section \<open>Astronomy Class Library: keyword views and the file aggregate\<close>

text \<open>
  The development follows three source files of the library:
  \<^item> \<^verbatim>\<open>source/FITSKeywordUInt16.cpp\<close>: the conversion operators of the keyword
    class that stores a \<^verbatim>\<open>std::uint16_t\<close>;
  \<^item> \<^verbatim>\<open>include/AstroFile.h\<close>: the data members of \<^verbatim>\<open>CAstroFile\<close>, the
    registry types and the member functions whose bodies the header gives inline;
  \<^item> \<^verbatim>\<open>Include/HDBImage.h\<close>: the declarations of the image block.

  The two headers declare more than they define. Where a property needs the body of a
  function that no source file gives, the body is written from the specification of the
  library, and the text before the definition says so.

  Machine integers are words. A signed type is a word read through \<open>sint\<close>, an
  unsigned one a word read through \<open>uint\<close>. The C++ type \<^verbatim>\<open>int\<close>, to which the
  narrower integer types are promoted before a comparison, is taken as 32 bits wide.
\<close>

subsection \<open>Machine integer types\<close>

type_synonym uint16_t = "16 word"
type_synonym int16_t = "16 word"
type_synonym uint32_t = "32 word"
type_synonym int32_t = "32 word"
type_synonym int64_t = "64 word"
type_synonym cpp_int = "32 word"

subsection \<open>Errors\<close>

text \<open>
  The error kinds. \<open>RangeError\<close> is the \<^verbatim>\<open>std::range_error\<close> that a narrowing
  conversion operator throws; \<open>OutOfRange\<close> is the failure of a geometric operation
  whose parameters lie outside the payload's extents.
\<close>

datatype error = NotFound | RangeError | OutOfRange | InvalidArgument

section \<open>The unsigned 16-bit keyword\<close>

text \<open>
  \<^verbatim>\<open>CFITSKeywordUInt16\<close> derives from \<^verbatim>\<open>CFITSKeyword\<close>, which holds the
  keyword's name and comment; the class itself adds the stored value. The assignment
  operator of the source copies exactly these three members. A member's trailing
  underscore is written as a prime: \<open>value'\<close> is the member \<^verbatim>\<open>value_\<close>.
\<close>

record CFITSKeywordUInt16 =
  keyword' :: string
  comment' :: string
  value' :: uint16_t

text \<open>
  The three-argument constructor (keyword, value, comment): the members are initialised
  from the arguments, as the sibling class \<^verbatim>\<open>CFITSKeywordInt16\<close> declares it.
\<close>

definition CFITSKeywordUInt16_ctor :: "string \<Rightarrow> uint16_t \<Rightarrow> string \<Rightarrow> CFITSKeywordUInt16" where
  "CFITSKeywordUInt16_ctor keyword val comment =
     \<lparr>keyword' = keyword, comment' = comment, value' = val\<rparr>"

text \<open>\<^verbatim>\<open>operator=\<close>: keyword, value and comment are taken from the right-hand side.\<close>

definition assign :: "CFITSKeywordUInt16 \<Rightarrow> CFITSKeywordUInt16 \<Rightarrow> CFITSKeywordUInt16" where
  "assign this rhs = this\<lparr>keyword' := keyword' rhs, value' := value' rhs, comment' := comment' rhs\<rparr>"

text \<open>
  Integral promotion of the stored value to \<^verbatim>\<open>int\<close>: every value of an unsigned
  16-bit type fits, so the promotion extends with zeros.
\<close>

definition promote :: "uint16_t \<Rightarrow> cpp_int" where
  "promote v = ucast v"

text \<open>
  \<^verbatim>\<open>std::numeric_limits<std::int16_t>::max()\<close> and \<^verbatim>\<open>min()\<close>, promoted to
  \<^verbatim>\<open>int\<close> for the comparison.
\<close>

definition int16_max :: cpp_int where
  "int16_max = 32767"

definition int16_min :: cpp_int where
  "int16_min = - 32768"

text \<open>
  \<^verbatim>\<open>operator std::int16_t()\<close>: both comparisons are signed comparisons of
  \<^verbatim>\<open>int\<close>s; when they hold the value is cast, keeping its sixteen bits, and
  otherwise \<^verbatim>\<open>std::range_error\<close> is thrown.
\<close>

definition operator_int16_t :: "CFITSKeywordUInt16 \<Rightarrow> error + int16_t" where
  "operator_int16_t k =
     (if word_sle (promote (value' k)) int16_max \<and> word_sle int16_min (promote (value' k))
      then Inr (ucast (value' k))
      else Inl RangeError)"

text \<open>
  The widening operators are plain casts. The source has no failing branch in any of
  them, so the model returns the value itself and not a sum.
\<close>

definition operator_int32_t :: "CFITSKeywordUInt16 \<Rightarrow> int32_t" where
  "operator_int32_t k = ucast (value' k)"

definition operator_int64_t :: "CFITSKeywordUInt16 \<Rightarrow> int64_t" where
  "operator_int64_t k = ucast (value' k)"

definition operator_uint16_t :: "CFITSKeywordUInt16 \<Rightarrow> uint16_t" where
  "operator_uint16_t k = value' k"

definition operator_uint32_t :: "CFITSKeywordUInt16 \<Rightarrow> uint32_t" where
  "operator_uint32_t k = ucast (value' k)"

subsection \<open>Integer to floating point\<close>

text \<open>
  A finite binary floating-point number is a signed integer significand scaled by a
  power of two; the numbers that arise from integers have a non-negative exponent.
  \<open>fp_value\<close> is the integer such a number denotes.
\<close>

record fp_number =
  significand :: int
  exponent :: nat

definition fp_value :: "fp_number \<Rightarrow> int" where
  "fp_value x = significand x * 2 ^ exponent x"

fun bit_length :: "nat \<Rightarrow> nat" where
  "bit_length n = (if n = 0 then 0 else Suc (bit_length (n div 2)))"

text \<open>
  The conversion of an integer to a floating-point type whose significand has \<open>p\<close> bits
  (24 for \<^verbatim>\<open>float\<close>, 53 for \<^verbatim>\<open>double\<close>). A magnitude below \<open>2 ^ p\<close> is kept as it
  is; a larger one loses its low \<open>sh\<close> bits and is rounded to the nearest significand,
  ties to the even one; a significand that the rounding carries up to \<open>2 ^ p\<close> is
  halved and the exponent raised by one. No integer of at most 64 bits exceeds the exponent range of
  either type.
\<close>

definition int_to_fp :: "nat \<Rightarrow> int \<Rightarrow> fp_number" where
  "int_to_fp p n =
     (let a = nat \<bar>n\<bar> in
      if a < 2 ^ p then \<lparr>significand = n, exponent = 0\<rparr>
      else
        let sh = bit_length a - p;
            q = a div 2 ^ sh;
            r = a mod 2 ^ sh;
            half = 2 ^ (sh - 1);
            q' = (if half < r \<or> (r = half \<and> odd q) then q + 1 else q)
        in if q' = 2 ^ p then \<lparr>significand = sgn n * 2 ^ (p - 1), exponent = sh + 1\<rparr>
           else \<lparr>significand = sgn n * int q', exponent = sh\<rparr>)"

definition operator_float :: "CFITSKeywordUInt16 \<Rightarrow> fp_number" where
  "operator_float k = int_to_fp 24 (uint (value' k))"

definition operator_double :: "CFITSKeywordUInt16 \<Rightarrow> fp_number" where
  "operator_double k = int_to_fp 53 (uint (value' k))"

subsection \<open>Integer to string\<close>

text \<open>
  \<^verbatim>\<open>std::to_string\<close> on an \<^verbatim>\<open>int\<close> prints as \<^verbatim>\<open>%d\<close> does: a minus sign for a
  negative number, then the decimal digits, most significant first, with no padding.
\<close>

definition digit_char :: "nat \<Rightarrow> char" where
  "digit_char d = char_of (48 + d)"

fun digits10 :: "nat \<Rightarrow> string" where
  "digits10 n = (if n < 10 then [digit_char n] else digits10 (n div 10) @ [digit_char (n mod 10)])"

definition to_string :: "int \<Rightarrow> string" where
  "to_string i = (if i < 0 then CHR ''-'' # digits10 (nat (- i)) else digits10 (nat i))"

text \<open>
  \<^verbatim>\<open>operator std::string()\<close>: the stored value is promoted to \<^verbatim>\<open>int\<close> and handed
  to \<^verbatim>\<open>std::to_string\<close>.
\<close>

definition operator_string :: "CFITSKeywordUInt16 \<Rightarrow> string" where
  "operator_string k = to_string (sint (promote (value' k)))"

text \<open>
  Reading decimal notation, to say what a decimal rendering is: a non-empty string of
  digits without a leading zero (the string \<open>''0''\<close> apart), and the number it denotes.
\<close>

definition digit_val :: "char \<Rightarrow> nat" where
  "digit_val c = of_char c - 48"

definition is_digit :: "char \<Rightarrow> bool" where
  "is_digit c \<longleftrightarrow> (48::nat) \<le> of_char c \<and> of_char c \<le> (57::nat)"

definition decimal_value :: "string \<Rightarrow> nat" where
  "decimal_value s = foldl (\<lambda>acc c. 10 * acc + digit_val c) 0 s"

definition is_decimal :: "string \<Rightarrow> bool" where
  "is_decimal s \<longleftrightarrow> s \<noteq> [] \<and> list_all is_digit s \<and> (s = ''0'' \<or> hd s \<noteq> CHR ''0'')"

section \<open>The file aggregate\<close>

text \<open>
  \<^verbatim>\<open>CAstroFile\<close> as \<^verbatim>\<open>include/AstroFile.h\<close> declares it. The classes of the blocks
  and of the observation context are declared in headers of their own; nothing here
  looks inside them, so they are opaque types. A smart pointer is an option: \<open>None\<close>
  is the null pointer. The registry \<^verbatim>\<open>HDBRegister\<close> is a static member: it belongs
  to the class and is no part of an instance. The member functions below are virtual;
  the definitions are those of \<^verbatim>\<open>CAstroFile\<close> itself.
\<close>

typedecl CHDB
typedecl CObservatory
typedecl CWeather
typedecl CAstroTime
typedecl CTargetAstronomy
typedecl CTelescope

record CAstroFile =
  astrometryHDB' :: "CHDB option"
  photometryHDB' :: "CHDB option"
  imageName' :: string
  observationLocation :: "CObservatory option"
  observationWeather :: "CWeather option"
  observationTime :: "CAstroTime option"
  observationTarget :: "CTargetAstronomy option"
  observationTelescope :: "CTelescope option"
  HDB :: "CHDB list"
  bDirty :: bool
  bHasData :: bool

subsection \<open>The member functions the header defines inline\<close>


text \<open>\<^verbatim>\<open>bool isDirty() const { return bDirty; }\<close>\<close>

definition isDirty :: "CAstroFile \<Rightarrow> bool" where
  "isDirty this = bDirty this"

text \<open>\<^verbatim>\<open>bool hasData() const { return bHasData; }\<close>\<close>

definition hasData :: "CAstroFile \<Rightarrow> bool" where
  "hasData this = bHasData this"

text \<open>
  \<^verbatim>\<open>void isDirty(bool b) const { bDirty = b; }\<close>: the member is
  \<^verbatim>\<open>mutable\<close>, so the assignment is allowed on a constant object. The overload
  that takes the flag is named \<open>isDirty_set\<close>.
\<close>

definition isDirty_set :: "bool \<Rightarrow> CAstroFile \<Rightarrow> CAstroFile" where
  "isDirty_set b this = this\<lparr>bDirty := b\<rparr>"

text \<open>\<^verbatim>\<open>void hasData(bool b) const { bHasData = b; }\<close>\<close>

definition hasData_set :: "bool \<Rightarrow> CAstroFile \<Rightarrow> CAstroFile" where
  "hasData_set b this = this\<lparr>bHasData := b\<rparr>"


text \<open>\<^verbatim>\<open>CTelescope *getObservationTelescope() { return observationTelescope.get(); }\<close>\<close>

definition getObservationTelescope :: "CAstroFile \<Rightarrow> CTelescope option" where
  "getObservationTelescope this = observationTelescope this"




text \<open>
  An aggregate with no block, no name and both flags down, for the examples.
\<close>

definition empty_file :: CAstroFile where
  "empty_file =
     \<lparr>astrometryHDB' = None, photometryHDB' = None, imageName' = [],
      observationLocation = None, observationWeather = None, observationTime = None,
      observationTarget = None, observationTelescope = None,
      HDB = [], bDirty = False, bHasData = False\<rparr>"

section \<open>The image payload\<close>

text \<open>
  \<^verbatim>\<open>Include/HDBImage.h\<close> declares the image block \<^verbatim>\<open>CImageHDB\<close>: it holds a pointer
  to a \<^verbatim>\<open>CAstroImage\<close> and declares \<^verbatim>\<open>imageCrop\<close>, \<^verbatim>\<open>imageFlip\<close> and
  \<^verbatim>\<open>imageFlop\<close>, whose bodies are in no file of the sources. An axis extent or
  position is an \<^verbatim>\<open>AXIS_t\<close>, a signed integer; a point is a pair.
\<close>

type_synonym AXIS_t = int
type_synonym 'a TPoint2D = "'a \<times> 'a"

text \<open>
  Modelled from the spec: the class \<^verbatim>\<open>CAstroImage\<close>, which is not in the sources. The
  spec gives the payload of an image block as a two-dimensional, optionally multi-plane
  pixel buffer with a width and a height. The buffer is a list of planes, a plane a
  list of rows, a row a list of pixels; the pixel type plays no part.
\<close>

record 'px CAstroImage =
  img_width :: AXIS_t
  img_height :: AXIS_t
  planes :: "'px list list list"

text \<open>
  Modelled from the spec: the agreement of the declared extents with the buffer, which
  the spec requires of every block (the declared shape is the payload's shape).
\<close>

definition shape_consistent :: "'px CAstroImage \<Rightarrow> bool" where
  "shape_consistent img \<longleftrightarrow>
     0 \<le> img_width img \<and> 0 \<le> img_height img
     \<and> list_all (\<lambda>plane. length plane = nat (img_height img)
                   \<and> list_all (\<lambda>row. length row = nat (img_width img)) plane) (planes img)"

text \<open>
  Modelled from the spec: the body of \<^verbatim>\<open>CImageHDB::imageFlip\<close>, the mirror about the
  horizontal axis. The rows of every plane change places, top to bottom.
\<close>

definition imageFlip :: "'px CAstroImage \<Rightarrow> 'px CAstroImage" where
  "imageFlip img = img\<lparr>planes := map rev (planes img)\<rparr>"

text \<open>
  Modelled from the spec: the body of \<^verbatim>\<open>CImageHDB::imageFlop\<close>, the mirror about the
  vertical axis. The pixels of every row change places, left to right.
\<close>

definition imageFlop :: "'px CAstroImage \<Rightarrow> 'px CAstroImage" where
  "imageFlop img = img\<lparr>planes := map (map rev) (planes img)\<rparr>"

text \<open>
  Modelled from the spec: when a requested region lies within the current extents. The
  region starts at \<open>origen\<close> and extends over \<open>dims\<close> pixels along each axis.
\<close>

definition region_inside :: "'px CAstroImage \<Rightarrow> AXIS_t TPoint2D \<Rightarrow> AXIS_t TPoint2D \<Rightarrow> bool" where
  "region_inside img origen dims \<longleftrightarrow>
     0 \<le> fst origen \<and> 0 \<le> snd origen \<and> 0 \<le> fst dims \<and> 0 \<le> snd dims
     \<and> fst origen + fst dims \<le> img_width img
     \<and> snd origen + snd dims \<le> img_height img"

definition crop_plane :: "nat \<Rightarrow> nat \<Rightarrow> nat \<Rightarrow> nat \<Rightarrow> 'px list list \<Rightarrow> 'px list list" where
  "crop_plane xo yo xd yd plane = map (\<lambda>row. take xd (drop xo row)) (take yd (drop yo plane))"

text \<open>
  Modelled from the spec: the body of \<^verbatim>\<open>CImageHDB::imageCrop(origen, dims)\<close>. A
  region outside the current extents fails with \<open>OutOfRange\<close> before anything is
  touched; otherwise the payload becomes the requested rectangle of every plane.
\<close>

definition imageCrop :: "AXIS_t TPoint2D \<Rightarrow> AXIS_t TPoint2D \<Rightarrow> 'px CAstroImage \<Rightarrow> error + 'px CAstroImage" where
  "imageCrop origen dims img =
     (if \<not> region_inside img origen dims then Inl OutOfRange
      else Inr \<lparr>img_width = fst dims, img_height = snd dims,
                planes = map (crop_plane (nat (fst origen)) (nat (snd origen))
                                         (nat (fst dims)) (nat (snd dims))) (planes img)\<rparr>)"

text \<open>A one-plane image of the given extents with every pixel the same, for the examples.\<close>

definition uniform_image :: "nat \<Rightarrow> nat \<Rightarrow> 'px \<Rightarrow> 'px CAstroImage" where
  "uniform_image w h px =
     \<lparr>img_width = int w, img_height = int h, planes = [replicate h (replicate w px)]\<rparr>"

section \<open>The block registry\<close>

text \<open>
  \<^verbatim>\<open>SHDBRegister\<close> as \<^verbatim>\<open>include/AstroFile.h\<close> declares it: three function pointers.
  \<^verbatim>\<open>HDBClassName\<close> takes no argument, so it is the name it returns;
  \<^verbatim>\<open>testFunction\<close> decides whether the decoded record a \<^verbatim>\<open>fitsfile\<close> handle
  stands at carries the signature of the block class; \<^verbatim>\<open>createFunction\<close> builds the
  block for the aggregate. The type \<open>'file\<close> is that of the decoded records. The
  registry is a vector of such entries.
\<close>

record 'file SHDBRegister =
  HDBClassName :: string
  testFunction :: "'file \<Rightarrow> bool"
  createFunction :: "CAstroFile \<Rightarrow> 'file \<Rightarrow> CHDB option"

type_synonym 'file DHDBRegister = "'file SHDBRegister list"

text \<open>
  Modelled from the spec: the body of \<^verbatim>\<open>CAstroFile::HDBRegisterClass\<close>, which is not
  in the sources. Registration is append-only: the entry goes to the end of the
  process-wide registry and the call reports success.
\<close>

definition HDBRegisterClass :: "'file SHDBRegister \<Rightarrow> 'file DHDBRegister \<Rightarrow> bool \<times> 'file DHDBRegister" where
  "HDBRegisterClass toRegister registry = (True, registry @ [toRegister])"

text \<open>
  Modelled from the spec: the lookup inside \<^verbatim>\<open>CAstroFile::HDBCreateClass\<close>, which is
  not in the sources. The registry is consulted in order, and the first entry whose
  test accepts the decoded record is the one resolved.
\<close>

fun HDBResolve :: "'file DHDBRegister \<Rightarrow> 'file \<Rightarrow> 'file SHDBRegister option" where
  "HDBResolve [] file = None"
| "HDBResolve (e # es) file = (if testFunction e file then Some e else HDBResolve es file)"

text \<open>
  Modelled from the spec: the body of \<^verbatim>\<open>CAstroFile::HDBCreateClass\<close>. The resolved
  entry's constructor builds the block; with no entry for the record there is no block.
\<close>

definition HDBCreateClass :: "'file DHDBRegister \<Rightarrow> CAstroFile \<Rightarrow> 'file \<Rightarrow> CHDB option" where
  "HDBCreateClass registry this file =
     (case HDBResolve registry file of
        None \<Rightarrow> None
      | Some e \<Rightarrow> createFunction e this file)"

text \<open>Two entries for the examples; a decoded record is its extension name here.\<close>

definition image_entry :: "string SHDBRegister" where
  "image_entry =
     \<lparr>HDBClassName = ''IMAGE'', testFunction = (\<lambda>file. file = ''IMAGE''),
      createFunction = (\<lambda>this file. None)\<rparr>"

definition table_entry :: "string SHDBRegister" where
  "table_entry =
     \<lparr>HDBClassName = ''TABLE'', testFunction = (\<lambda>file. file = ''TABLE''),
      createFunction = (\<lambda>this file. None)\<rparr>"

section \<open>Properties of the keyword views\<close>

subsection \<open>Facts about the promotion\<close>

lemma sint_promote: "sint (promote v) = uint v"
proof -
  have upper: "uint v < 65536"
    using uint_bounded [of v] by simp
  have lower: "0 \<le> uint v"
    by simp
  from upper lower have "- 2147483648 \<le> uint v \<and> uint v < 2147483648"
    by linarith
  then have "- (2 ^ 31) \<le> uint v \<and> uint v < 2 ^ 31"
    by simp
  then have "signed_take_bit 31 (uint v) = uint v"
    by (simp add: signed_take_bit_int_eq_self)
  then show ?thesis
    by (simp add: promote_def signed_ucast_eq)
qed

lemma sint_int16_max: "sint int16_max = 32767"
  by (simp add: int16_max_def)

lemma sint_int16_min: "sint int16_min = - 32768"
  by (simp add: int16_min_def)

lemma operator_int16_t_unfold:
  "operator_int16_t k = (if uint (value' k) \<le> 32767 then Inr (value' k) else Inl RangeError)"
proof -
  have "0 \<le> uint (value' k)"
    by simp
  then have "(- 32768 :: int) \<le> uint (value' k)"
    by linarith
  then show ?thesis
    by (simp add: operator_int16_t_def word_sle_eq sint_promote sint_int16_max sint_int16_min)
qed

subsection \<open>The signed 16-bit view\<close>

text \<open>
  Claim C1. Reading a keyword that stores an unsigned 16-bit value as a signed 16-bit
  view fails with \<open>RangeError\<close> exactly when the stored value does not fit in
  [-32768, 32767]; a successful read returns the stored value. In particular a keyword
  constructed with the value 40000 cannot be read as a signed 16-bit view.
\<close>

theorem int16_view_fails_iff_out_of_range:
  "(operator_int16_t k = Inl RangeError
      \<longleftrightarrow> \<not> (- 32768 \<le> uint (value' k) \<and> uint (value' k) \<le> 32767))
   \<and> (\<exists>e. operator_int16_t k = Inl e) = (operator_int16_t k = Inl RangeError)
   \<and> (\<exists>r. operator_int16_t k = Inr r \<and> sint r = uint (value' k))
       = (- 32768 \<le> uint (value' k) \<and> uint (value' k) \<le> 32767)
   \<and> operator_int16_t (CFITSKeywordUInt16_ctor name 40000 c) = Inl RangeError"
proof -
  have low: "(- 32768 :: int) \<le> uint (value' k)"
  proof -
    have "0 \<le> uint (value' k)" by simp
    then show ?thesis by linarith
  qed
  have fits: "uint (value' k) \<le> 32767 \<Longrightarrow> sint (value' k) = uint (value' k)"
  proof -
    assume "uint (value' k) \<le> 32767"
    then have "- (2 ^ 15) \<le> uint (value' k) \<and> uint (value' k) < 2 ^ 15"
      using low by simp
    then have "signed_take_bit 15 (uint (value' k)) = uint (value' k)"
      by (simp add: signed_take_bit_int_eq_self)
    then show ?thesis
      by (simp add: sint_uint)
  qed
  have a: "operator_int16_t k = Inl RangeError
      \<longleftrightarrow> \<not> (- 32768 \<le> uint (value' k) \<and> uint (value' k) \<le> 32767)"
    using low by (simp add: operator_int16_t_unfold)
  have b: "(\<exists>e. operator_int16_t k = Inl e) = (operator_int16_t k = Inl RangeError)"
    by (simp add: operator_int16_t_unfold)
  have c: "(\<exists>r. operator_int16_t k = Inr r \<and> sint r = uint (value' k))
       = (- 32768 \<le> uint (value' k) \<and> uint (value' k) \<le> 32767)"
    using low fits by (auto simp add: operator_int16_t_unfold)
  have d: "operator_int16_t (CFITSKeywordUInt16_ctor name 40000 c) = Inl RangeError"
    by (simp add: operator_int16_t_unfold CFITSKeywordUInt16_ctor_def)
  from a b c d show ?thesis
    by blast
qed

subsection \<open>Widening casts\<close>

lemma sint_ucast_int32: "sint (ucast (v :: uint16_t) :: int32_t) = uint v"
  using sint_promote [of v] by (simp add: promote_def)

lemma sint_ucast_int64: "sint (ucast (v :: uint16_t) :: int64_t) = uint v"
proof -
  have upper: "uint v < 65536"
    using uint_bounded [of v] by simp
  have lower: "0 \<le> uint v"
    by simp
  from upper lower have "- 9223372036854775808 \<le> uint v \<and> uint v < 9223372036854775808"
    by linarith
  then have "- (2 ^ 63) \<le> uint v \<and> uint v < 2 ^ 63"
    by simp
  then have "signed_take_bit 63 (uint v) = uint v"
    by (simp add: signed_take_bit_int_eq_self)
  then show ?thesis
    by (simp add: signed_ucast_eq)
qed

lemma uint_ucast_uint32: "uint (ucast (v :: uint16_t) :: uint32_t) = uint v"
proof -
  have "uint v < 65536"
    using uint_bounded [of v] by simp
  then have "uint v < 2 ^ 32"
    by simp
  then have "take_bit 32 (uint v) = uint v"
    by (simp add: take_bit_int_eq_self)
  then show ?thesis
    by (simp add: unsigned_ucast_eq)
qed

subsection \<open>Floating point: small integers are exact\<close>

lemma int_to_fp_exact:
  assumes "\<bar>n\<bar> < 2 ^ p"
  shows "int_to_fp p n = \<lparr>significand = n, exponent = 0\<rparr>"
proof -
  have "nat \<bar>n\<bar> < 2 ^ p"
    using assms by (simp add: nat_less_iff)
  then show ?thesis
    by (simp add: int_to_fp_def)
qed

lemma int_to_fp_rounds: "int_to_fp 24 16777219 = \<lparr>significand = 8388610, exponent = 1\<rparr>"
  by (simp add: int_to_fp_def Let_def)

lemma int_to_fp_carries: "int_to_fp 24 33554431 = \<lparr>significand = 8388608, exponent = 2\<rparr>"
  by (simp add: int_to_fp_def Let_def)

lemma uint16_below_float: "\<bar>uint (v :: uint16_t)\<bar> < 2 ^ 24"
proof -
  have "uint v < 65536"
    using uint_bounded [of v] by simp
  then show ?thesis
    by simp
qed

lemma uint16_below_double: "\<bar>uint (v :: uint16_t)\<bar> < 2 ^ 53"
proof -
  have "uint v < 65536"
    using uint_bounded [of v] by simp
  then show ?thesis
    by simp
qed

subsection \<open>Decimal digits\<close>

lemma digit_val_digit_char: "d < 10 \<Longrightarrow> digit_val (digit_char d) = d"
  by (simp add: digit_val_def digit_char_def)

lemma is_digit_digit_char: "d < 10 \<Longrightarrow> is_digit (digit_char d)"
  by (simp add: is_digit_def digit_char_def)

lemma digit_char_0: "digit_char 0 = CHR ''0''"
  by code_simp

lemma digit_char_eq_0_iff:
  assumes "d < 10"
  shows "digit_char d = CHR ''0'' \<longleftrightarrow> d = 0"
proof
  assume "digit_char d = CHR ''0''"
  then have "digit_val (digit_char d) = digit_val (digit_char 0)"
    by (simp add: digit_char_0)
  with assms show "d = 0"
    by (simp add: digit_val_digit_char)
next
  assume "d = 0"
  then show "digit_char d = CHR ''0''"
    by (simp add: digit_char_0)
qed

lemma decimal_value_snoc: "decimal_value (s @ [c]) = 10 * decimal_value s + digit_val c"
  by (simp add: decimal_value_def)

declare digits10.simps [simp del]

lemma digits10_small: "n < 10 \<Longrightarrow> digits10 n = [digit_char n]"
  by (simp add: digits10.simps [of n])

lemma digits10_large: "\<not> n < 10 \<Longrightarrow> digits10 n = digits10 (n div 10) @ [digit_char (n mod 10)]"
  by (simp add: digits10.simps [of n])

lemma digits10_not_Nil: "digits10 n \<noteq> []"
  by (cases "n < 10") (simp_all add: digits10_small digits10_large)

lemma decimal_value_digits10: "decimal_value (digits10 n) = n"
proof (induction n rule: digits10.induct)
  case (1 n)
  show ?case
  proof (cases "n < 10")
    case True
    then show ?thesis
      by (simp add: digits10_small decimal_value_def digit_val_digit_char)
  next
    case False
    with 1 show ?thesis
      by (simp add: digits10_large decimal_value_snoc digit_val_digit_char)
  qed
qed

lemma digits10_all_digits: "list_all is_digit (digits10 n)"
proof (induction n rule: digits10.induct)
  case (1 n)
  show ?case
  proof (cases "n < 10")
    case True
    then show ?thesis
      by (simp add: digits10_small is_digit_digit_char)
  next
    case False
    with 1 show ?thesis
      by (simp add: digits10_large is_digit_digit_char)
  qed
qed

lemma hd_digits10: "hd (digits10 n) = CHR ''0'' \<longleftrightarrow> n = 0"
proof (induction n rule: digits10.induct)
  case (1 n)
  show ?case
  proof (cases "n < 10")
    case True
    then show ?thesis
      by (simp add: digits10_small digit_char_eq_0_iff)
  next
    case False
    then have "n div 10 \<noteq> 0" and "n \<noteq> 0"
      by simp_all
    with 1 False show ?thesis
      by (simp add: digits10_large digits10_not_Nil)
  qed
qed

lemma is_decimal_digits10: "is_decimal (digits10 n)"
proof (cases "n = 0")
  case True
  then show ?thesis
    by (simp add: is_decimal_def digits10_small digit_char_0 is_digit_def)
next
  case False
  then have "hd (digits10 n) \<noteq> CHR ''0''"
    by (simp add: hd_digits10)
  then show ?thesis
    by (simp add: is_decimal_def digits10_not_Nil digits10_all_digits)
qed

lemma digit_char_4: "digit_char 4 = CHR ''4''"
  by code_simp

lemma digits10_40000: "digits10 40000 = ''40000''"
  by (simp add: digits10_small digits10_large digit_char_0 digit_char_4)

lemma operator_string_digits: "operator_string k = digits10 (unat (value' k))"
proof -
  have "\<not> uint (value' k) < 0"
    by simp
  then show ?thesis
    by (simp add: operator_string_def to_string_def sint_promote)
qed

subsection \<open>The wider views\<close>

text \<open>
  Claim C2. Reading a keyword that stores the unsigned 16-bit value \<open>v\<close> as a signed
  32-bit, signed 64-bit or unsigned 32-bit integer, as a float, as a double or as a
  string returns \<open>v\<close>: the integer views denote \<open>v\<close>, the floating-point views are
  exact (the significand is \<open>v\<close> itself, within the width of the type), and the string
  view is the decimal rendering of \<open>v\<close>. None of these views has a failing branch. In
  particular the value 40000 read as a signed 64-bit view is 40000.
\<close>

theorem wider_views_return_stored_value:
  "sint (operator_int32_t k) = uint (value' k)
   \<and> sint (operator_int64_t k) = uint (value' k)
   \<and> uint (operator_uint32_t k) = uint (value' k)
   \<and> operator_float k = \<lparr>significand = uint (value' k), exponent = 0\<rparr>
   \<and> fp_value (operator_float k) = uint (value' k)
   \<and> \<bar>significand (operator_float k)\<bar> < 2 ^ 24
   \<and> operator_double k = \<lparr>significand = uint (value' k), exponent = 0\<rparr>
   \<and> fp_value (operator_double k) = uint (value' k)
   \<and> \<bar>significand (operator_double k)\<bar> < 2 ^ 53
   \<and> is_decimal (operator_string k)
   \<and> decimal_value (operator_string k) = unat (value' k)
   \<and> sint (operator_int64_t (CFITSKeywordUInt16_ctor name 40000 c)) = 40000
   \<and> operator_string (CFITSKeywordUInt16_ctor name 40000 c) = ''40000''"
proof -
  let ?v = "value' k"
  have i32: "sint (operator_int32_t k) = uint ?v"
    by (simp add: operator_int32_t_def sint_ucast_int32)
  have i64: "sint (operator_int64_t k) = uint ?v"
    by (simp add: operator_int64_t_def sint_ucast_int64)
  have u32: "uint (operator_uint32_t k) = uint ?v"
    by (simp add: operator_uint32_t_def uint_ucast_uint32)
  have f: "operator_float k = \<lparr>significand = uint ?v, exponent = 0\<rparr>"
    unfolding operator_float_def by (rule int_to_fp_exact) (rule uint16_below_float)
  have d: "operator_double k = \<lparr>significand = uint ?v, exponent = 0\<rparr>"
    unfolding operator_double_def by (rule int_to_fp_exact) (rule uint16_below_double)
  have fv: "fp_value (operator_float k) = uint ?v"
    by (simp add: f fp_value_def)
  have fb: "\<bar>significand (operator_float k)\<bar> < 2 ^ 24"
    using uint16_below_float [of ?v] by (simp add: f)
  have dv: "fp_value (operator_double k) = uint ?v"
    by (simp add: d fp_value_def)
  have db: "\<bar>significand (operator_double k)\<bar> < 2 ^ 53"
    using uint16_below_double [of ?v] by (simp add: d)
  have s1: "is_decimal (operator_string k)"
    by (simp add: operator_string_digits is_decimal_digits10)
  have s2: "decimal_value (operator_string k) = unat ?v"
    by (simp add: operator_string_digits decimal_value_digits10)
  have e1: "sint (operator_int64_t (CFITSKeywordUInt16_ctor name 40000 c)) = 40000"
    by (simp add: operator_int64_t_def sint_ucast_int64 CFITSKeywordUInt16_ctor_def)
  have e2: "operator_string (CFITSKeywordUInt16_ctor name 40000 c) = ''40000''"
    by (simp add: operator_string_digits CFITSKeywordUInt16_ctor_def digits10_40000)
  from i32 i64 u32 f fv fb d dv db s1 s2 e1 e2 show ?thesis
    by blast
qed

section \<open>Properties of the file aggregate\<close>

subsection \<open>The flag setters\<close>

text \<open>
  Claim C10. For every aggregate and every boolean \<open>b\<close>, \<open>isDirty(b)\<close> sets the
  dirty flag to exactly \<open>b\<close> and \<open>hasData(b)\<close> sets the has-data flag to exactly \<open>b\<close>;
  neither changes any other member. In particular \<open>isDirty(false)\<close> clears the dirty
  flag of any aggregate, whatever its state, with no save taking place: the call touches
  nothing but the flag.
\<close>

theorem flag_setters_set_only_their_flag:
  "isDirty (isDirty_set b f) = b
   \<and> isDirty_set b f = f\<lparr>bDirty := b\<rparr>
   \<and> bHasData (isDirty_set b f) = bHasData f
   \<and> imageName' (isDirty_set b f) = imageName' f
   \<and> HDB (isDirty_set b f) = HDB f
   \<and> astrometryHDB' (isDirty_set b f) = astrometryHDB' f
   \<and> photometryHDB' (isDirty_set b f) = photometryHDB' f
   \<and> observationLocation (isDirty_set b f) = observationLocation f
   \<and> observationWeather (isDirty_set b f) = observationWeather f
   \<and> observationTime (isDirty_set b f) = observationTime f
   \<and> observationTarget (isDirty_set b f) = observationTarget f
   \<and> observationTelescope (isDirty_set b f) = observationTelescope f
   \<and> hasData (hasData_set b f) = b
   \<and> hasData_set b f = f\<lparr>bHasData := b\<rparr>
   \<and> bDirty (hasData_set b f) = bDirty f
   \<and> imageName' (hasData_set b f) = imageName' f
   \<and> HDB (hasData_set b f) = HDB f
   \<and> astrometryHDB' (hasData_set b f) = astrometryHDB' f
   \<and> photometryHDB' (hasData_set b f) = photometryHDB' f
   \<and> observationLocation (hasData_set b f) = observationLocation f
   \<and> observationWeather (hasData_set b f) = observationWeather f
   \<and> observationTime (hasData_set b f) = observationTime f
   \<and> observationTarget (hasData_set b f) = observationTarget f
   \<and> observationTelescope (hasData_set b f) = observationTelescope f
   \<and> isDirty (isDirty_set False f) = False"
  by (simp add: isDirty_def hasData_def isDirty_set_def hasData_set_def)

subsection \<open>Which calls move the flags\<close>












section \<open>Properties of the image payload\<close>

subsection \<open>Mirroring\<close>

lemma imageFlip_swaps_rows:
  "planes (imageFlip \<lparr>img_width = 2, img_height = 2, planes = [[[1, 2], [3, 4 :: nat]]]\<rparr>)
     = [[[3, 4], [1, 2]]]"
  by (simp add: imageFlip_def)

lemma imageFlop_swaps_columns:
  "planes (imageFlop \<lparr>img_width = 2, img_height = 2, planes = [[[1, 2], [3, 4 :: nat]]]\<rparr>)
     = [[[2, 1], [4, 3]]]"
  by (simp add: imageFlop_def)

lemma map_rev_rev: "map rev (map rev ps) = ps"
  by (induction ps) simp_all

lemma map_map_rev_rev: "map (map rev) (map (map rev) ps) = ps"
  by (induction ps) (simp_all add: map_rev_rev)

text \<open>
  Claim C4. For every image payload, \<open>flip\<close> applied twice gives back the pixel buffer
  exactly as it was, and so does \<open>flop\<close> applied twice; the extents are untouched, so
  the whole payload is as it was.
\<close>

theorem flip_twice_and_flop_twice_restore_the_pixels:
  "planes (imageFlip (imageFlip img)) = planes img
   \<and> imageFlip (imageFlip img) = img
   \<and> planes (imageFlop (imageFlop img)) = planes img
   \<and> imageFlop (imageFlop img) = img"
  by (simp add: imageFlip_def imageFlop_def map_rev_rev map_map_rev_rev)

subsection \<open>Cropping\<close>

lemma crop_rows_all:
  "list_all (\<lambda>row. length row = w) plane \<Longrightarrow> map (take w) plane = plane"
  by (induction plane) simp_all

lemma crop_plane_all:
  "length plane = h \<Longrightarrow> list_all (\<lambda>row. length row = w) plane \<Longrightarrow> crop_plane 0 0 w h plane = plane"
  by (simp add: crop_plane_def crop_rows_all)

lemma crop_planes_all:
  "list_all (\<lambda>plane. length plane = h \<and> list_all (\<lambda>row. length row = w) plane) ps
     \<Longrightarrow> map (crop_plane 0 0 w h) ps = ps"
  by (induction ps) (simp_all add: crop_plane_all)

lemma imageCrop_full:
  assumes "shape_consistent img"
  shows "imageCrop (0, 0) (img_width img, img_height img) img = Inr img"
proof -
  from assms have inside: "region_inside img (0, 0) (img_width img, img_height img)"
    by (simp add: shape_consistent_def region_inside_def)
  from assms have "map (crop_plane 0 0 (nat (img_width img)) (nat (img_height img))) (planes img)
      = planes img"
    by (simp add: shape_consistent_def crop_planes_all)
  with inside show ?thesis
    by (simp add: imageCrop_def)
qed

lemma shape_consistent_uniform: "shape_consistent (uniform_image w h px)"
  by (simp add: shape_consistent_def uniform_image_def list_all_iff)

lemma imageCrop_inner_example:
  "imageCrop (1, 0) (1, 2) \<lparr>img_width = 2, img_height = 2, planes = [[[1, 2], [3, 4 :: nat]]]\<rparr>
     = Inr \<lparr>img_width = 1, img_height = 2, planes = [[[2], [4]]]\<rparr>"
  by (simp add: imageCrop_def region_inside_def crop_plane_def)

text \<open>
  Claim C6. A crop fails with \<open>OutOfRange\<close> exactly when the requested region lies
  outside the current extents, and with no other error; on a 100 by 100 image the
  region of extent (20, 20) at (90, 90) fails. A crop to the full extents of an image
  whose buffer has the declared shape succeeds and returns the payload unchanged; on a
  100 by 100 image that is the crop of extent (100, 100) at (0, 0).
\<close>

theorem crop_fails_outside_and_full_crop_changes_nothing:
  "(imageCrop origen dims img = Inl OutOfRange \<longleftrightarrow> \<not> region_inside img origen dims)
   \<and> (\<forall>e. imageCrop origen dims img = Inl e \<longrightarrow> e = OutOfRange)
   \<and> (img_width img = 100 \<and> img_height img = 100
        \<longrightarrow> imageCrop (90, 90) (20, 20) img = Inl OutOfRange)
   \<and> (shape_consistent img
        \<longrightarrow> imageCrop (0, 0) (img_width img, img_height img) img = Inr img)
   \<and> (shape_consistent img \<and> img_width img = 100 \<and> img_height img = 100
        \<longrightarrow> imageCrop (0, 0) (100, 100) img = Inr img)"
proof -
  have a: "imageCrop origen dims img = Inl OutOfRange \<longleftrightarrow> \<not> region_inside img origen dims"
    by (simp add: imageCrop_def)
  have b: "\<forall>e. imageCrop origen dims img = Inl e \<longrightarrow> e = OutOfRange"
    by (simp add: imageCrop_def)
  have c: "img_width img = 100 \<and> img_height img = 100
        \<longrightarrow> imageCrop (90, 90) (20, 20) img = Inl OutOfRange"
    by (simp add: imageCrop_def region_inside_def)
  have d: "shape_consistent img
        \<longrightarrow> imageCrop (0, 0) (img_width img, img_height img) img = Inr img"
    by (simp add: imageCrop_full)
  have e: "shape_consistent img \<and> img_width img = 100 \<and> img_height img = 100
        \<longrightarrow> imageCrop (0, 0) (100, 100) img = Inr img"
    using imageCrop_full [of img] by auto
  from a b c d e show ?thesis
    by blast
qed

theorem crop_fails_outside_and_full_crop_changes_nothing_witness:
  "shape_consistent (uniform_image 100 100 (0 :: nat))
   \<and> img_width (uniform_image 100 100 (0 :: nat)) = 100
   \<and> img_height (uniform_image 100 100 (0 :: nat)) = 100
   \<and> \<not> region_inside (uniform_image 100 100 (0 :: nat)) (90, 90) (20, 20)
   \<and> imageCrop (90, 90) (20, 20) (uniform_image 100 100 (0 :: nat)) = Inl OutOfRange
   \<and> imageCrop (0, 0) (100, 100) (uniform_image 100 100 (0 :: nat)) = Inr (uniform_image 100 100 0)"
  using crop_fails_outside_and_full_crop_changes_nothing
          [of "(90, 90)" "(20, 20)" "uniform_image 100 100 (0 :: nat)"]
        shape_consistent_uniform [of 100 100 "0 :: nat"]
  by (simp add: uniform_image_def region_inside_def)

section \<open>Properties of the block registry\<close>

lemma HDBResolve_append:
  "HDBResolve (xs @ ys) file =
     (case HDBResolve xs file of None \<Rightarrow> HDBResolve ys file | Some e \<Rightarrow> Some e)"
  by (induction xs) simp_all

lemma HDBResolve_accepts: "HDBResolve registry file = Some e \<Longrightarrow> testFunction e file"
  by (induction registry) (auto split: if_splits)

text \<open>
  Claim C8. The registry is append-only: a registration puts its entry after the
  entries already there and leaves those in place. A record that resolved to an entry
  before a registration resolves to the same entry after it, and the block built for it
  is the same: no registration removes or shadows an entry. After two entries with
  different signatures (neither accepts the other's record) are registered, in either
  order, in a registry that knew neither signature, the record of each resolves to
  the entry registered for it.
\<close>

theorem registration_appends_and_never_shadows:
  "snd (HDBRegisterClass e registry) = registry @ [e]
   \<and> take (length registry) (snd (HDBRegisterClass e registry)) = registry
   \<and> (HDBResolve registry file = Some r
        \<longrightarrow> HDBResolve (snd (HDBRegisterClass e registry)) file = Some r
          \<and> HDBCreateClass (snd (HDBRegisterClass e registry)) this file
              = HDBCreateClass registry this file)
   \<and> (HDBResolve registry fa = None \<and> HDBResolve registry fb = None
        \<and> testFunction a fa \<and> testFunction b fb \<and> \<not> testFunction a fb \<and> \<not> testFunction b fa
        \<longrightarrow> HDBResolve (snd (HDBRegisterClass b (snd (HDBRegisterClass a registry)))) fa = Some a
          \<and> HDBResolve (snd (HDBRegisterClass b (snd (HDBRegisterClass a registry)))) fb = Some b
          \<and> HDBResolve (snd (HDBRegisterClass a (snd (HDBRegisterClass b registry)))) fa = Some a
          \<and> HDBResolve (snd (HDBRegisterClass a (snd (HDBRegisterClass b registry)))) fb = Some b)"
  by (simp add: HDBRegisterClass_def HDBCreateClass_def HDBResolve_append)

theorem registration_appends_and_never_shadows_witness:
  "HDBResolve [image_entry] ''IMAGE'' = Some image_entry
   \<and> HDBResolve (snd (HDBRegisterClass table_entry [image_entry])) ''IMAGE'' = Some image_entry
   \<and> HDBResolve [] ''IMAGE'' = None \<and> HDBResolve [] ''TABLE'' = None
   \<and> testFunction image_entry ''IMAGE'' \<and> testFunction table_entry ''TABLE''
   \<and> \<not> testFunction image_entry ''TABLE'' \<and> \<not> testFunction table_entry ''IMAGE''
   \<and> HDBResolve (snd (HDBRegisterClass table_entry (snd (HDBRegisterClass image_entry [])))) ''IMAGE''
       = Some image_entry
   \<and> HDBResolve (snd (HDBRegisterClass table_entry (snd (HDBRegisterClass image_entry [])))) ''TABLE''
       = Some table_entry"
  using registration_appends_and_never_shadows
          [of table_entry "[image_entry]" "''IMAGE''" image_entry empty_file "''IMAGE''" "''TABLE''"
              image_entry table_entry]
        registration_appends_and_never_shadows
          [of table_entry "[]" "''IMAGE''" image_entry empty_file "''IMAGE''" "''TABLE''"
              image_entry table_entry]
  by (simp add: image_entry_def table_entry_def)

end
